theory Spec2Isabelle
  imports Complex_Main "HOL-Library.Word" "HOL-Library.Sublist" "HOL-Library.Signed_Division"
    "HOL-Library.Log_Nat"
begin

section \<open>Data model\<close>

text \<open>
  The converter of \<^verbatim>\<open>src/index.ts\<close> reads the JSON document that Aseprite writes
  (\<^verbatim>\<open>data.frames\<close>, \<^verbatim>\<open>data.meta.frameTags\<close>) and the decoded sheet
  (\<^verbatim>\<open>png.width\<close>, \<^verbatim>\<open>png.data\<close>). JSON numbers that Aseprite emits as
  pixel counts are modelled as \<open>nat\<close>, the other integral numbers as \<open>int\<close>, numbers
  that the code halves as \<open>rat\<close>, bytes of a \<^verbatim>\<open>Buffer\<close> as \<open>8 word\<close>.
  Every number of the program is an IEEE double: an integer of the description is one that
  a double holds, and the two products and the two quotients whose rounding can show in the
  result (\<^verbatim>\<open>frame.duration * refreshRate\<close>, its division by 1000,
  \<^verbatim>\<open>alpha / 255\<close> and the product with it) are rounded as the program rounds them.
  The limits of buffer allocation are not part of the model.
\<close>

type_synonym byte = "8 word"

record raw_frame =
  frame_x :: nat
  frame_y :: nat
  frame_w :: nat
  frame_h :: nat
  spriteSourceSize_x :: int
  spriteSourceSize_y :: int
  sourceSize_w :: int
  sourceSize_h :: int
  frame_duration :: int

record png =
  png_width :: nat
  png_data :: "byte list"

record derived_frame =
  width :: nat
  height :: nat
  xOffset :: rat
  yOffset :: rat
  duration :: int
  rgba :: "byte list"

datatype direction = Forward | Reverse | Pingpong | Other string

record raw_tag =
  tag_name :: string
  tag_from :: int
  tag_to :: int
  tag_direction :: direction

record resolved_tag =
  name :: string
  indices :: "int list"
  total_duration :: int

text \<open>
  Every \<^verbatim>\<open>throw\<close> of the source is a string; the model keeps the values that the
  message interpolates. \<open>TypeError\<close> is the exception of the JavaScript runtime for
  reading a property of \<^verbatim>\<open>undefined\<close>.
\<close>

datatype geometry_field = Width | Height | XOffset | YOffset

datatype error =
    GeometryLimitExceeded nat geometry_field rat int
  | DurationIncompatible nat int int
  | FrameCountLimitExceeded nat
  | UnimplementedDirection string direction
  | TagDurationLimitExceeded string int
  | TypeError

section \<open>JavaScript numbers\<close>

text \<open>
  \<open>floor_log2 q\<close> is the exponent of a positive rational: the \<open>l\<close> with
  \<open>2 ^ l \<le> q < 2 ^ (l + 1)\<close>. The bit lengths of numerator and denominator give it up
  to one, and one comparison decides.
\<close>

definition floor_log2 :: "rat \<Rightarrow> int" where
  "floor_log2 q =
     (let k = bitlen (fst (quotient_of q)) - bitlen (snd (quotient_of q))
      in if 2 powi k \<le> q then k else k - 1)"

text \<open>Rounding to the nearest integer, a tie going to the even one.\<close>

definition round_half_even :: "rat \<Rightarrow> int" where
  "round_half_even q =
     (let f = \<lfloor>q\<rfloor>; r = q - rat_of_int f
      in if r < 1 / 2 then f else if 1 / 2 < r then f + 1 else if even f then f else f + 1)"

text \<open>
  The double nearest to a rational, ties to even: the rational is scaled to a significand of
  53 bits, rounded, and scaled back. Subnormal numbers do not occur in the program (its
  quotients are at least \<open>1 / 255\<close>); a result of \<open>2 ^ 1024\<close> or more stands for
  \<^verbatim>\<open>Infinity\<close> and is told apart where it can occur.
\<close>

definition double_round :: "rat \<Rightarrow> rat" where
  "double_round q =
     (if q = 0 then 0
      else let e = floor_log2 \<bar>q\<bar> - 52
           in sgn q * rat_of_int (round_half_even (\<bar>q\<bar> / 2 powi e)) * 2 powi e)"

text \<open>
  \<^verbatim>\<open>a * b\<close> for two integers: the rounded product, again an integer, or
  \<open>None\<close> for \<^verbatim>\<open>Infinity\<close>. \<^verbatim>\<open>a / b\<close> where \<open>b\<close> divides \<open>a\<close>: the
  rounded quotient.
\<close>

definition js_times :: "int \<Rightarrow> int \<Rightarrow> int option" where
  "js_times a b =
     (let p = double_round (rat_of_int (a * b))
      in if 2 ^ 1024 \<le> \<bar>p\<bar> then None else Some \<lfloor>p\<rfloor>)"

definition js_divide :: "int \<Rightarrow> int \<Rightarrow> int" where
  "js_divide a b = \<lfloor>double_round (rat_of_int a / rat_of_int b)\<rfloor>"

section \<open>Frame Deriver\<close>

text \<open>
  Reading a \<^verbatim>\<open>Buffer\<close> past its end gives \<^verbatim>\<open>undefined\<close>.
\<close>

definition read_byte :: "byte list \<Rightarrow> nat \<Rightarrow> byte option" where
  "read_byte buf i = (if i < length buf then Some (buf ! i) else None)"

text \<open>
  \<^verbatim>\<open>Math.floor(png.data[...] * alphaCoefficient)\<close> with
  \<^verbatim>\<open>alphaCoefficient = alpha / 255\<close>, the quotient and the product each rounded to a
  double; an \<^verbatim>\<open>undefined\<close> operand makes the
  product \<^verbatim>\<open>NaN\<close>, which a \<^verbatim>\<open>Buffer\<close> stores as 0.
\<close>

definition premultiplied :: "byte option \<Rightarrow> byte option \<Rightarrow> byte" where
  "premultiplied raw alpha =
     (case alpha of
        None \<Rightarrow> 0
      | Some a \<Rightarrow>
          (case raw of
             None \<Rightarrow> 0
           | Some r \<Rightarrow>
               word_of_int
                 \<lfloor>double_round (rat_of_nat (unat r) * double_round (rat_of_nat (unat a) / 255))\<rfloor>))"

definition inverted_alpha :: "byte option \<Rightarrow> byte" where
  "inverted_alpha alpha = (case alpha of None \<Rightarrow> 0 | Some a \<Rightarrow> 255 - a)"

text \<open>
  The body of the two pixel loops: one step for the pixel \<open>(x, y)\<close> of the frame. The
  write positions are those of the source, \<^verbatim>\<open>y * frame.frame.w + x + channel\<close>.
\<close>

definition write_pixel :: "png \<Rightarrow> raw_frame \<Rightarrow> nat \<Rightarrow> nat \<Rightarrow> byte list \<Rightarrow> byte list" where
  "write_pixel p f y x buf =
     (let base = (y + frame_y f) * png_width p * 4 + (x + frame_x f) * 4;
          alpha = read_byte (png_data p) (base + 3);
          buf1 = fold (\<lambda>channel b.
                   b[y * frame_w f + x + channel :=
                       premultiplied (read_byte (png_data p) (base + channel)) alpha])
                   [0..<3] buf
      in buf1[y * frame_w f + x + 3 := inverted_alpha alpha])"

definition premultiply_loop :: "png \<Rightarrow> raw_frame \<Rightarrow> byte list" where
  "premultiply_loop p f =
     fold (\<lambda>y buf. fold (\<lambda>x b. write_pixel p f y x b) [0..<frame_w f] buf)
       [0..<frame_h f]
       (replicate (frame_w f * frame_h f * 4) 0)"

text \<open>
  JavaScript's \<^verbatim>\<open>%\<close> truncates towards zero (\<open>smod\<close>) and is exact; of
  \<^verbatim>\<open>Infinity\<close> it is \<^verbatim>\<open>NaN\<close>, which differs from 0. One call of the closure
  passed to \<^verbatim>\<open>Object.keys(data.frames).map\<close>, for the frame at position \<open>index\<close>;
  the checks are in the order of the source, and the record returned holds
  \<^verbatim>\<open>rgba: png.data\<close>.
\<close>

definition frame_xOffset :: "raw_frame \<Rightarrow> rat" where
  "frame_xOffset f = rat_of_int (spriteSourceSize_x f) - rat_of_int (sourceSize_w f) / 2"

definition frame_yOffset :: "raw_frame \<Rightarrow> rat" where
  "frame_yOffset f = rat_of_int (spriteSourceSize_y f) - rat_of_int (sourceSize_h f) / 2"

definition derive_frame :: "png \<Rightarrow> int \<Rightarrow> nat \<Rightarrow> raw_frame \<Rightarrow> error + derived_frame" where
  "derive_frame p refreshRate index f =
     (let w = frame_w f; h = frame_h f;
          xo = frame_xOffset f;
          yo = frame_yOffset f
      in if w > 65535 then Inl (GeometryLimitExceeded (index + 1) Width (rat_of_nat w) 65535)
         else if h > 65535 then Inl (GeometryLimitExceeded (index + 1) Height (rat_of_nat h) 65535)
         else if xo > 32767 then Inl (GeometryLimitExceeded (index + 1) XOffset xo 32767)
         else if xo < - 32768 then Inl (GeometryLimitExceeded (index + 1) XOffset xo (- 32768))
         else if yo > 32767 then Inl (GeometryLimitExceeded (index + 1) YOffset yo 32767)
         else if yo < - 32768 then Inl (GeometryLimitExceeded (index + 1) YOffset yo (- 32768))
         else
           (case js_times (frame_duration f) refreshRate of
              None \<Rightarrow> Inl (DurationIncompatible (index + 1) (frame_duration f) refreshRate)
            | Some product \<Rightarrow>
                if product smod 1000 \<noteq> 0
                then Inl (DurationIncompatible (index + 1) (frame_duration f) refreshRate)
                else
                  (let d = js_divide product 1000;
                       local_rgba = premultiply_loop p f
                   in Inr \<lparr>width = w, height = h, xOffset = xo, yOffset = yo, duration = d,
                           rgba = png_data p\<rparr>)))"

text \<open>\<^verbatim>\<open>Array.prototype.map\<close>: the first exception ends the run.\<close>

fun map_frames :: "png \<Rightarrow> int \<Rightarrow> nat \<Rightarrow> raw_frame list \<Rightarrow> error + derived_frame list" where
  "map_frames p refreshRate index [] = Inr []"
| "map_frames p refreshRate index (f # fs) =
     (case derive_frame p refreshRate index f of
        Inl e \<Rightarrow> Inl e
      | Inr d \<Rightarrow>
          (case map_frames p refreshRate (Suc index) fs of
             Inl e \<Rightarrow> Inl e
           | Inr ds \<Rightarrow> Inr (d # ds)))"

definition frames :: "png \<Rightarrow> int \<Rightarrow> raw_frame list \<Rightarrow> error + derived_frame list" where
  "frames p refreshRate raw =
     (case map_frames p refreshRate 0 raw of
        Inl e \<Rightarrow> Inl e
      | Inr ds \<Rightarrow>
          if length ds > 65535 then Inl (FrameCountLimitExceeded (length ds)) else Inr ds)"

text \<open>All six geometry checks of \<open>derive_frame\<close> let the frame through.\<close>

definition geometry_in_range :: "raw_frame \<Rightarrow> bool" where
  "geometry_in_range f =
     (frame_w f \<le> 65535 \<and> frame_h f \<le> 65535
      \<and> - 32768 \<le> frame_xOffset f \<and> frame_xOffset f \<le> 32767
      \<and> - 32768 \<le> frame_yOffset f \<and> frame_yOffset f \<le> 32767)"

section \<open>Tag Expander\<close>

text \<open>
  The four \<^verbatim>\<open>for\<close> loops of the \<^verbatim>\<open>switch\<close> on \<^verbatim>\<open>tag.direction\<close>.
  Each takes the loop variable, the bound and the array built so far
  (\<^verbatim>\<open>indices.push(index)\<close> appends).
\<close>

function forward_loop :: "int \<Rightarrow> int \<Rightarrow> int list \<Rightarrow> int list" where
  "forward_loop index to acc =
     (if index \<le> to then forward_loop (index + 1) to (acc @ [index]) else acc)"
  by pat_completeness auto
termination
  by (relation "measure (\<lambda>(index, to, acc). nat (to + 1 - index))") auto

function reverse_loop :: "int \<Rightarrow> int \<Rightarrow> int list \<Rightarrow> int list" where
  "reverse_loop index from acc =
     (if index \<ge> from then reverse_loop (index - 1) from (acc @ [index]) else acc)"
  by pat_completeness auto
termination
  by (relation "measure (\<lambda>(index, from, acc). nat (index + 1 - from))") auto

function pingpong_up_loop :: "int \<Rightarrow> int \<Rightarrow> int list \<Rightarrow> int list" where
  "pingpong_up_loop index to acc =
     (if index < to then pingpong_up_loop (index + 1) to (acc @ [index]) else acc)"
  by pat_completeness auto
termination
  by (relation "measure (\<lambda>(index, to, acc). nat (to - index))") auto

function pingpong_down_loop :: "int \<Rightarrow> int \<Rightarrow> int list \<Rightarrow> int list" where
  "pingpong_down_loop index from acc =
     (if index > from then pingpong_down_loop (index - 1) from (acc @ [index]) else acc)"
  by pat_completeness auto
termination
  by (relation "measure (\<lambda>(index, from, acc). nat (index - from))") auto

declare forward_loop.simps [simp del] reverse_loop.simps [simp del]
  pingpong_up_loop.simps [simp del] pingpong_down_loop.simps [simp del]

definition tag_indices :: "raw_tag \<Rightarrow> error + int list" where
  "tag_indices t =
     (case tag_direction t of
        Forward \<Rightarrow> Inr (forward_loop (tag_from t) (tag_to t) [])
      | Reverse \<Rightarrow> Inr (reverse_loop (tag_to t) (tag_from t) [])
      | Pingpong \<Rightarrow>
          Inr (pingpong_down_loop (tag_to t) (tag_from t)
                 (pingpong_up_loop (tag_from t) (tag_to t) []))
      | Other d \<Rightarrow> Inl (UnimplementedDirection (tag_name t) (Other d)))"

text \<open>
  How often the index sequence of a tag visits the frame \<open>k\<close> (0 where the expansion
  fails).
\<close>

definition visits :: "raw_tag \<Rightarrow> int \<Rightarrow> nat" where
  "visits t k = (case tag_indices t of Inl e \<Rightarrow> 0 | Inr idx \<Rightarrow> count_list idx k)"

text \<open>
  \<^verbatim>\<open>for (const index of indices) duration += frames[index].duration\<close>:
  \<^verbatim>\<open>frames[index]\<close> is \<^verbatim>\<open>undefined\<close> outside the array, and reading its
  \<^verbatim>\<open>duration\<close> throws.
\<close>

fun sum_durations :: "derived_frame list \<Rightarrow> int list \<Rightarrow> int \<Rightarrow> error + int" where
  "sum_durations fs [] d = Inr d"
| "sum_durations fs (i # is) d =
     (if 0 \<le> i \<and> i < int (length fs)
      then sum_durations fs is (d + duration (fs ! nat i))
      else Inl TypeError)"

definition expand_tag :: "derived_frame list \<Rightarrow> raw_tag \<Rightarrow> error + resolved_tag" where
  "expand_tag fs t =
     (case tag_indices t of
        Inl e \<Rightarrow> Inl e
      | Inr idx \<Rightarrow>
          (case sum_durations fs idx 0 of
             Inl e \<Rightarrow> Inl e
           | Inr d \<Rightarrow>
               if d > 65535 then Inl (TagDurationLimitExceeded (tag_name t) d)
               else Inr \<lparr>name = tag_name t, indices = idx, total_duration = d\<rparr>))"

fun tags :: "derived_frame list \<Rightarrow> raw_tag list \<Rightarrow> error + resolved_tag list" where
  "tags fs [] = Inr []"
| "tags fs (t # ts) =
     (case expand_tag fs t of
        Inl e \<Rightarrow> Inl e
      | Inr r \<Rightarrow> (case tags fs ts of Inl e \<Rightarrow> Inl e | Inr rs \<Rightarrow> Inr (r # rs)))"

section \<open>Code Emitter\<close>

text \<open>
  Template literals render numbers with \<^verbatim>\<open>Number.prototype.toString\<close>: decimal for the
  integers, and the offsets, which are integers or odd multiples of one half, end in
  \<^verbatim>\<open>.5\<close> in the second case. Bytes are rendered by \<^verbatim>\<open>toString(16)\<close>.
\<close>

definition digit_char :: "nat \<Rightarrow> char" where
  "digit_char d = ''0123456789abcdef'' ! d"

fun show_base :: "nat \<Rightarrow> nat \<Rightarrow> string" where
  "show_base b n =
     (if b < 2 \<or> n < b then [digit_char n] else show_base b (n div b) @ [digit_char (n mod b)])"

declare show_base.simps [simp del]

definition show_nat :: "nat \<Rightarrow> string" where
  "show_nat n = show_base 10 n"

definition show_int :: "int \<Rightarrow> string" where
  "show_int i = (if i < 0 then ''-'' @ show_nat (nat (- i)) else show_nat (nat i))"

definition show_number :: "rat \<Rightarrow> string" where
  "show_number r =
     (if r < 0 then ''-'' else '''') @ show_nat (nat \<lfloor>\<bar>r\<bar>\<rfloor>)
       @ (if \<bar>r\<bar> = rat_of_int \<lfloor>\<bar>r\<bar>\<rfloor> then '''' else ''.5'')"

definition show_hex :: "byte \<Rightarrow> string" where
  "show_hex b = ''0x'' @ show_base 16 (unat b)"

text \<open>\<^verbatim>\<open>Array.prototype.join\<close>.\<close>

fun join :: "string \<Rightarrow> string list \<Rightarrow> string" where
  "join sep [] = []"
| "join sep [x] = x"
| "join sep (x # y # ys) = x @ sep @ join sep (y # ys)"

abbreviation nl :: string where
  "nl \<equiv> [CHR 0x0A]"

abbreviation dq :: string where
  "dq \<equiv> [CHR 0x22]"

text \<open>
  The calls into Node's \<^verbatim>\<open>path\<close> module are made by the caller: \<open>neomuraInclude\<close>
  and \<open>spritesInclude\<close> stand for
  \<^verbatim>\<open>relative(dirname(asepriteFile), neomuraHeaderFile)\<close> and
  \<^verbatim>\<open>relative(dirname(asepriteFile), neomuraSpritesHeaderFile)\<close>, \<open>asepriteBasename\<close>
  for \<^verbatim>\<open>basename(asepriteFile)\<close>, and \<open>sprite\<close> for the constant
  \<^verbatim>\<open>name\<close> of the source.
\<close>

definition header :: "string \<Rightarrow> string \<Rightarrow> string \<Rightarrow> resolved_tag list \<Rightarrow> string" where
  "header neomuraInclude spritesInclude sprite ts =
     ''#pragma once'' @ nl @ nl
     @ ''#include '' @ dq @ neomuraInclude @ dq @ nl
     @ ''#include '' @ dq @ spritesInclude @ dq @ nl @ nl
     @ ''extern const sprite_t '' @ sprite @ '';'' @ nl @ nl
     @ join nl (map (\<lambda>t. ''extern const sprite_animation_t '' @ name t @ '';'') ts) @ nl"

definition frame_array :: "string \<Rightarrow> string \<Rightarrow> string \<Rightarrow> nat \<Rightarrow> string list \<Rightarrow> string" where
  "frame_array ctype sprite field n cells =
     ''static const '' @ ctype @ '' '' @ sprite @ field @ ''['' @ show_nat n @ ''] = { ''
     @ join '', '' cells @ '' };'' @ nl"

definition rgba_array :: "string \<Rightarrow> nat \<Rightarrow> derived_frame \<Rightarrow> string" where
  "rgba_array sprite index f =
     ''static const u8_t '' @ sprite @ ''_rgba_'' @ show_nat index @ ''[''
     @ show_nat (length (rgba f)) @ ''] = { '' @ join '', '' (map show_hex (rgba f)) @ '' };''"

definition tag_indices_array :: "resolved_tag \<Rightarrow> string" where
  "tag_indices_array t =
     ''const u16_t '' @ name t @ ''_indices['' @ show_nat (length (indices t)) @ ''] = { ''
     @ join '', '' (map show_int (indices t)) @ '' };''"

definition tag_struct :: "string \<Rightarrow> resolved_tag \<Rightarrow> string" where
  "tag_struct sprite t =
     ''const sprite_animation_t '' @ name t @ '' = {'' @ nl
     @ ''  &'' @ sprite @ '','' @ nl
     @ ''  &'' @ name t @ ''_indices,'' @ nl
     @ ''  '' @ show_nat (length (indices t)) @ '','' @ nl
     @ ''  '' @ show_int (total_duration t) @ nl
     @ ''};''"

text \<open>
  The template of the source in two parts: \<open>source_sprite\<close> is the text up to and with
  the empty line after the sprite, the rest are the index arrays and the animations of the
  tags.
\<close>

definition source_sprite :: "string \<Rightarrow> string \<Rightarrow> derived_frame list \<Rightarrow> string" where
  "source_sprite asepriteBasename sprite fs =
     ''#include '' @ dq @ asepriteBasename @ ''.h'' @ dq @ nl @ nl
     @ frame_array ''u16_t'' sprite ''_widths'' (length fs) (map (\<lambda>f. show_nat (width f)) fs)
     @ frame_array ''u16_t'' sprite ''_heights'' (length fs) (map (\<lambda>f. show_nat (height f)) fs)
     @ frame_array ''s16_t'' sprite ''_x_offsets'' (length fs) (map (\<lambda>f. show_number (xOffset f)) fs)
     @ frame_array ''s16_t'' sprite ''_y_offsets'' (length fs) (map (\<lambda>f. show_number (yOffset f)) fs)
     @ frame_array ''u16_t'' sprite ''_durations'' (length fs) (map (\<lambda>f. show_int (duration f)) fs)
     @ join nl (map (\<lambda>(index, f). rgba_array sprite index f) (enumerate 0 fs)) @ nl
     @ frame_array ''u8_t *'' sprite ''_rgba'' (length fs)
         (map (\<lambda>index. ''&'' @ sprite @ ''_rgba_'' @ show_nat index) [0..<length fs])
     @ nl
     @ ''const sprite_t '' @ sprite @ '' = {'' @ nl
     @ ''  &'' @ sprite @ ''_widths,'' @ nl
     @ ''  &'' @ sprite @ ''_heights,'' @ nl
     @ ''  &'' @ sprite @ ''_x_offsets,'' @ nl
     @ ''  &'' @ sprite @ ''_y_offsets,'' @ nl
     @ ''  &'' @ sprite @ ''_durations,'' @ nl
     @ ''  &'' @ sprite @ ''_rgba,'' @ nl
     @ ''  '' @ show_nat (length fs) @ nl
     @ ''};'' @ nl @ nl"

definition source :: "string \<Rightarrow> string \<Rightarrow> derived_frame list \<Rightarrow> resolved_tag list \<Rightarrow> string" where
  "source asepriteBasename sprite fs ts =
     source_sprite asepriteBasename sprite fs
     @ join nl (map tag_indices_array ts) @ nl @ nl
     @ join (nl @ nl) (map (tag_struct sprite) ts) @ nl"

definition headerFile :: "string \<Rightarrow> string" where
  "headerFile output = output @ ''.h''"

definition sourceFile :: "string \<Rightarrow> string" where
  "sourceFile output = output @ ''.c''"

section \<open>Identifier Normalizer\<close>

text \<open>
  Modelled from the spec: the module \<^verbatim>\<open>convert-file-name-to-identifier\<close>, of which the
  repository holds only the unit test. The definitions follow the three steps of the
  specification: whitespace, underscore and hyphen separate chunks, and empty chunks vanish;
  inside a chunk a word starts before an upper-case letter that follows a lower-case letter,
  and before an upper-case letter that follows an upper-case letter and precedes a lower-case
  letter; every word is lower-cased and the words are joined by single underscores.
\<close>

definition is_upper :: "char \<Rightarrow> bool" where
  "is_upper c = (65 \<le> (of_char c :: nat) \<and> (of_char c :: nat) \<le> 90)"

definition is_lower :: "char \<Rightarrow> bool" where
  "is_lower c = (97 \<le> (of_char c :: nat) \<and> (of_char c :: nat) \<le> 122)"

definition is_digit :: "char \<Rightarrow> bool" where
  "is_digit c = (48 \<le> (of_char c :: nat) \<and> (of_char c :: nat) \<le> 57)"

definition is_separator :: "char \<Rightarrow> bool" where
  "is_separator c =
     ((9 \<le> (of_char c :: nat) \<and> (of_char c :: nat) \<le> 13) \<or> c = CHR '' ''
      \<or> c = CHR ''_'' \<or> c = CHR ''-'')"

definition to_lower :: "char \<Rightarrow> char" where
  "to_lower c = (if is_upper c then char_of ((of_char c :: nat) + 32) else c)"

fun split_chunks :: "string \<Rightarrow> string \<Rightarrow> string list" where
  "split_chunks cur [] = (if cur = [] then [] else [cur])"
| "split_chunks cur (c # cs) =
     (if is_separator c
      then (if cur = [] then split_chunks [] cs else cur # split_chunks [] cs)
      else split_chunks (cur @ [c]) cs)"

definition case_boundary :: "char \<Rightarrow> char \<Rightarrow> string \<Rightarrow> bool" where
  "case_boundary prev c rest =
     (is_upper c \<and>
      (is_lower prev \<or> (is_upper prev \<and> (case rest of [] \<Rightarrow> False | n # _ \<Rightarrow> is_lower n))))"

fun split_from :: "string \<Rightarrow> char \<Rightarrow> string \<Rightarrow> string list" where
  "split_from cur prev [] = [cur]"
| "split_from cur prev (c # cs) =
     (if case_boundary prev c cs then cur # split_from [c] c cs
      else split_from (cur @ [c]) c cs)"

definition split_words :: "string \<Rightarrow> string list" where
  "split_words chunk = (case chunk of [] \<Rightarrow> [] | c # cs \<Rightarrow> split_from [c] c cs)"

text \<open>The characters of the words of a normalized identifier.\<close>

definition word_char :: "char \<Rightarrow> bool" where
  "word_char c = (is_lower c \<or> is_digit c)"

definition convertFileNameToIdentifier :: "string \<Rightarrow> string" where
  "convertFileNameToIdentifier fileName =
     join ''_'' (map (map to_lower) (concat (map split_words (split_chunks [] fileName))))"

section \<open>The run\<close>

text \<open>
  The body of \<^verbatim>\<open>runMain\<close> after the sheet and its description are read. The
  configuration holds the command line and what Node's \<^verbatim>\<open>path\<close> module computes from it:
  \<open>asepriteFile_name\<close> is \<^verbatim>\<open>parse(asepriteFile).name\<close>. The result is the pair of
  files handed to \<^verbatim>\<open>promises.writeFile\<close>, as (path, content).
\<close>

record config =
  asepriteFile_basename :: string
  asepriteFile_name :: string
  neomuraHeaderFile_relative :: string
  neomuraSpritesHeaderFile_relative :: string
  output_path :: string
  refreshRate :: int

definition run ::
  "config \<Rightarrow> raw_frame list \<Rightarrow> raw_tag list \<Rightarrow> png \<Rightarrow> error + (string \<times> string) list" where
  "run cfg data_frames frameTags p =
     (case frames p (refreshRate cfg) data_frames of
        Inl e \<Rightarrow> Inl e
      | Inr fs \<Rightarrow>
          (case tags fs frameTags of
             Inl e \<Rightarrow> Inl e
           | Inr ts \<Rightarrow>
               (let sprite = convertFileNameToIdentifier (asepriteFile_name cfg)
                in Inr [(headerFile (output_path cfg),
                         header (neomuraHeaderFile_relative cfg)
                           (neomuraSpritesHeaderFile_relative cfg) sprite ts),
                        (sourceFile (output_path cfg),
                         source (asepriteFile_basename cfg) sprite fs ts)])))"

section \<open>Properties of the JavaScript numbers\<close>

lemma bitlen_rat_bounds:
  assumes "0 < n"
  shows "(2::rat) powi (bitlen n - 1) \<le> rat_of_int n" "rat_of_int n < 2 powi bitlen n"
proof -
  have b: "1 \<le> bitlen n"
    using assms by (metis bitlen_eq_zero_iff bitlen_nonneg linorder_not_less int_one_le_iff_zero_less order_le_less)
  have "rat_of_int (2 ^ nat (bitlen n - 1)) \<le> rat_of_int n"
    using bitlen_bounds [OF assms] by (simp only: of_int_le_iff)
  then show "(2::rat) powi (bitlen n - 1) \<le> rat_of_int n"
    using b by (simp add: power_int_def)
  have "rat_of_int n < rat_of_int (2 ^ nat (bitlen n))"
    using bitlen_bounds [OF assms] by (simp only: of_int_less_iff)
  then show "rat_of_int n < 2 powi bitlen n"
    using b by (simp add: power_int_def)
qed

lemma floor_log2_bounds:
  assumes "0 < q"
  shows "2 powi floor_log2 q \<le> q" "q < 2 powi (floor_log2 q + 1)"
proof -
  obtain n d where nd: "quotient_of q = (n, d)" by (cases "quotient_of q")
  have d: "0 < d" using quotient_of_denom_pos [OF nd] .
  have q: "q = rat_of_int n / rat_of_int d" using quotient_of_div [OF nd] .
  have n: "0 < n"
    using assms d by (simp add: q zero_less_divide_iff)
  define k where "k = bitlen n - bitlen d"
  have lower: "(2::rat) powi (k - 1) \<le> q"
  proof -
    have "(2::rat) powi (k - 1) = 2 powi (bitlen n - 1) / 2 powi bitlen d"
      by (simp add: k_def power_int_diff [symmetric] algebra_simps)
    also have "\<dots> \<le> rat_of_int n / 2 powi bitlen d"
      using bitlen_rat_bounds(1) [OF n] by (simp add: divide_right_mono)
    also have "\<dots> \<le> rat_of_int n / rat_of_int d"
      using bitlen_rat_bounds(2) [OF d] n d by (intro divide_left_mono) auto
    finally show ?thesis by (simp add: q)
  qed
  have upper: "q < (2::rat) powi (k + 1)"
  proof -
    have "q = rat_of_int n / rat_of_int d" by (rule q)
    also have "\<dots> < 2 powi bitlen n / rat_of_int d"
      using bitlen_rat_bounds(2) [OF n] d by (simp add: divide_strict_right_mono)
    also have "\<dots> \<le> 2 powi bitlen n / 2 powi (bitlen d - 1)"
      using bitlen_rat_bounds(1) [OF d] d by (intro divide_left_mono) auto
    also have "\<dots> = 2 powi (k + 1)"
      by (simp add: k_def power_int_diff [symmetric] algebra_simps)
    finally show ?thesis .
  qed
  have fl: "floor_log2 q = (if 2 powi k \<le> q then k else k - 1)"
    by (simp add: floor_log2_def nd k_def)
  show "2 powi floor_log2 q \<le> q"
    using lower by (simp add: fl)
  show "q < 2 powi (floor_log2 q + 1)"
    using upper by (auto simp: fl)
qed


lemma round_half_even_of_int: "round_half_even (rat_of_int m) = m"
  by (simp add: round_half_even_def)

lemma round_half_even_error: "\<bar>rat_of_int (round_half_even q) - q\<bar> \<le> 1 / 2"
proof -
  have "rat_of_int \<lfloor>q\<rfloor> \<le> q" "q < rat_of_int \<lfloor>q\<rfloor> + 1"
    by linarith+
  then show ?thesis
    by (auto simp: round_half_even_def Let_def abs_le_iff)
qed

lemma double_round_error:
  assumes "0 < q"
  shows "\<bar>double_round q - q\<bar> \<le> 2 powi (floor_log2 q - 53)"
proof -
  define e where "e = floor_log2 q - 52"
  have pos: "(0::rat) < 2 powi e" by simp
  have "double_round q = rat_of_int (round_half_even (q / 2 powi e)) * 2 powi e"
    using assms by (simp add: double_round_def Let_def e_def)
  then have "double_round q - q = (rat_of_int (round_half_even (q / 2 powi e)) - q / 2 powi e) * 2 powi e"
    using pos by (simp add: algebra_simps)
  then have "\<bar>double_round q - q\<bar> = \<bar>rat_of_int (round_half_even (q / 2 powi e)) - q / 2 powi e\<bar> * 2 powi e"
    using pos by (simp add: abs_mult)
  also have "\<dots> \<le> 1 / 2 * 2 powi e"
    using round_half_even_error [of "q / 2 powi e"] pos by (intro mult_right_mono) auto
  also have "\<dots> = 2 powi (floor_log2 q - 53)"
    by (simp add: e_def power_int_diff)
  finally show ?thesis .
qed

lemma double_round_significand:
  assumes "0 < q"
  shows "\<exists>m. 2 ^ 52 \<le> m \<and> m \<le> 2 ^ 53 \<and> double_round q = rat_of_int m * 2 powi (floor_log2 q - 52)"
proof -
  define e where "e = floor_log2 q - 52"
  define x where "x = q / 2 powi e"
  have pos: "(0::rat) < 2 powi e" by simp
  have "2 powi floor_log2 q / 2 powi e \<le> x"
    using floor_log2_bounds(1) [OF assms] pos by (simp add: x_def divide_right_mono)
  then have lo: "2 ^ 52 \<le> x"
    by (simp add: e_def power_int_diff [symmetric])
  have "x < 2 powi (floor_log2 q + 1) / 2 powi e"
    using floor_log2_bounds(2) [OF assms] pos by (simp add: x_def divide_strict_right_mono)
  then have hi: "x < 2 ^ 53"
    by (simp add: e_def power_int_diff [symmetric])
  have f: "2 ^ 52 \<le> \<lfloor>x\<rfloor>" "\<lfloor>x\<rfloor> < 2 ^ 53"
    using lo hi by (simp_all add: le_floor_iff floor_less_iff)
  have "\<lfloor>x\<rfloor> \<le> round_half_even x" "round_half_even x \<le> \<lfloor>x\<rfloor> + 1"
    by (simp_all add: round_half_even_def Let_def)
  with f have "2 ^ 52 \<le> round_half_even x" "round_half_even x \<le> 2 ^ 53"
    by linarith+
  moreover have "double_round q = rat_of_int (round_half_even x) * 2 powi e"
    using assms by (simp add: double_round_def Let_def e_def x_def)
  ultimately show ?thesis
    unfolding e_def by blast
qed

lemma floor_log2_of_int_le:
  assumes "0 < n" "n < 2 ^ 53"
  shows "floor_log2 (rat_of_int n) \<le> 52"
proof -
  have "bitlen n \<le> 53"
  proof (rule ccontr)
    assume "\<not> bitlen n \<le> 53"
    then have "54 \<le> bitlen n" by simp
    then have "(2::int) ^ 53 \<le> 2 ^ nat (bitlen n - 1)"
      by (intro power_increasing) auto
    with bitlen_bounds [OF assms(1)] assms(2) show False by linarith
  qed
  moreover have "bitlen 1 = 1" by (simp add: bitlen_alt_def)
  ultimately show ?thesis
    by (simp add: floor_log2_def Let_def)
qed

lemma double_round_nat_exact:
  assumes "0 < n" "n < 2 ^ 53"
  shows "double_round (rat_of_int n) = rat_of_int n"
proof -
  define e where "e = floor_log2 (rat_of_int n) - 52"
  have e: "e \<le> 0"
    using floor_log2_of_int_le [OF assms] by (simp add: e_def)
  then have p: "(2::rat) powi e = 1 / 2 ^ nat (- e)"
    by (cases "e = 0") (simp_all add: power_int_def divide_simps flip: power_inverse)
  have "rat_of_int n / 2 powi e = rat_of_int (n * 2 ^ nat (- e))"
    by (simp add: p)
  then have "round_half_even (rat_of_int n / 2 powi e) = n * 2 ^ nat (- e)"
    by (simp only: round_half_even_of_int)
  then have "rat_of_int (round_half_even (rat_of_int n / 2 powi e)) * 2 powi e = rat_of_int n"
    by (simp add: p)
  then show ?thesis
    using assms(1) by (simp add: double_round_def Let_def e_def [symmetric])
qed

lemma double_round_minus: "double_round (- q) = - double_round q"
  by (simp add: double_round_def Let_def)

lemma double_round_int_exact:
  assumes "\<bar>n\<bar> < 2 ^ 53"
  shows "double_round (rat_of_int n) = rat_of_int n"
proof (cases "n = 0")
  case True
  then show ?thesis by (simp add: double_round_def)
next
  case False
  show ?thesis
  proof (cases "0 < n")
    case True
    then show ?thesis using assms by (intro double_round_nat_exact) auto
  next
    case False
    then have "0 < - n" "- n < 2 ^ 53" using \<open>n \<noteq> 0\<close> assms by auto
    then have "double_round (rat_of_int (- n)) = rat_of_int (- n)"
      by (rule double_round_nat_exact)
    then show ?thesis by (simp add: double_round_minus)
  qed
qed

lemma js_times_exact:
  assumes "\<bar>a * b\<bar> < 2 ^ 53"
  shows "js_times a b = Some (a * b)"
proof -
  have exact: "double_round (rat_of_int (a * b)) = rat_of_int (a * b)"
    by (rule double_round_int_exact [OF assms])
  have "(2::int) ^ 53 \<le> 2 ^ 1024" by (intro power_increasing) auto
  with assms have "\<bar>a * b\<bar> < 2 ^ 1024" by linarith
  then have "rat_of_int \<bar>a * b\<bar> < rat_of_int (2 ^ 1024)"
    by (simp only: of_int_less_iff)
  then have "\<not> 2 ^ 1024 \<le> \<bar>rat_of_int (a * b)\<bar>"
    by (simp del: of_int_mult)
  then show ?thesis
    unfolding js_times_def Let_def exact by (simp del: of_int_mult)
qed

lemma js_divide_exact:
  assumes "b dvd a" "\<bar>a\<bar> < 2 ^ 53"
  shows "js_divide a b = a div b"
proof -
  from assms(1) obtain k where k: "a = b * k" ..
  have le: "\<bar>a div b\<bar> \<le> \<bar>a\<bar>"
  proof (cases "b = 0")
    case True
    then show ?thesis by simp
  next
    case False
    then have "1 \<le> \<bar>b\<bar>" by simp
    then have "1 * \<bar>k\<bar> \<le> \<bar>b\<bar> * \<bar>k\<bar>"
      by (intro mult_right_mono) auto
    then show ?thesis using False by (simp add: k abs_mult)
  qed
  with assms(2) have small: "\<bar>a div b\<bar> < 2 ^ 53" by linarith
  have "rat_of_int a / rat_of_int b = rat_of_int (a div b)"
    by (cases "b = 0") (simp_all add: k)
  then show ?thesis
    by (simp add: js_divide_def double_round_int_exact [OF small])
qed

text \<open>
  Beyond \<open>2 ^ 53\<close> the product is rounded: the first product is odd and lies between two
  doubles, the second is a multiple of 1000 and its double is not.
\<close>

lemma js_times_rounded:
  "js_times 3 3002399751580667 = Some 9007199254742000"
  "js_times 1000 72057594037929 = Some 72057594037928992"
  by code_simp+

lemma js_divide_rounded: "js_divide 9007199254742000 1000 = 9007199254742"
  by code_simp

section \<open>Properties of the Frame Deriver\<close>

lemma smod_1000_eq_0_iff: "((a::int) smod 1000 = 0) = (a mod 1000 = 0)"
proof -
  have "a smod 1000 = sgn a * (\<bar>a\<bar> mod 1000)"
    by (simp add: signed_modulo_int_def)
  moreover have "(\<bar>a\<bar> mod 1000 = 0) = (a mod 1000 = 0)"
    by (simp add: mod_eq_0_iff_dvd)
  ultimately show ?thesis
    by (auto simp: sgn_if)
qed

text \<open>Whatever the frame, the pixels of a derived frame are the bytes of the whole sheet.\<close>

lemma derive_frame_rgba: "derive_frame p r i f = Inr d \<Longrightarrow> rgba d = png_data p"
  by (auto simp: derive_frame_def Let_def split: if_splits option.splits)

lemma derive_frame_geometry_in_range:
  assumes "geometry_in_range f" and "\<bar>frame_duration f * r\<bar> < 2 ^ 53"
  shows "derive_frame p r i f =
     (if (frame_duration f * r) mod 1000 \<noteq> 0
      then Inl (DurationIncompatible (i + 1) (frame_duration f) r)
      else Inr \<lparr>width = frame_w f, height = frame_h f, xOffset = frame_xOffset f,
                yOffset = frame_yOffset f, duration = (frame_duration f * r) div 1000,
                rgba = png_data p\<rparr>)"
proof -
  have "js_divide (frame_duration f * r) 1000 = frame_duration f * r div 1000"
    if "(frame_duration f * r) mod 1000 = 0"
    using that assms(2) by (intro js_divide_exact) (simp_all add: mod_eq_0_iff_dvd)
  then show ?thesis
    using assms(1)
    by (simp add: derive_frame_def Let_def geometry_in_range_def smod_1000_eq_0_iff
        js_times_exact [OF assms(2)])
qed

text \<open>
  The run fails with the error of the first frame that fails, which carries the position of
  that frame counted from 1.
\<close>

lemma map_frames_first_failure:
  "i < length raw \<Longrightarrow>
   \<forall>j<i. \<exists>d. derive_frame p r (k + j) (raw ! j) = Inr d \<Longrightarrow>
   derive_frame p r (k + i) (raw ! i) = Inl e \<Longrightarrow>
   map_frames p r k raw = Inl e"
proof (induction raw arbitrary: i k)
  case Nil
  then show ?case by simp
next
  case (Cons f raw)
  show ?case
  proof (cases i)
    case 0
    then show ?thesis using Cons.prems by simp
  next
    case (Suc i')
    have first: "\<exists>d. derive_frame p r k f = Inr d"
      using Cons.prems(2) Suc by (metis add.right_neutral nth_Cons_0 zero_less_Suc)
    have "\<forall>j<i'. \<exists>d. derive_frame p r (Suc k + j) (raw ! j) = Inr d"
    proof (intro allI impI)
      fix j assume "j < i'"
      then have "Suc j < i" using Suc by simp
      then show "\<exists>d. derive_frame p r (Suc k + j) (raw ! j) = Inr d"
        using Cons.prems(2) by (metis add_Suc_shift nth_Cons_Suc)
    qed
    moreover have "derive_frame p r (Suc k + i') (raw ! i') = Inl e"
      using Cons.prems(3) Suc by simp
    moreover have "i' < length raw"
      using Cons.prems(1) Suc by simp
    ultimately have "map_frames p r (Suc k) raw = Inl e"
      by (rule Cons.IH [rotated 1])
    then show ?thesis using first by auto
  qed
qed

lemma frames_first_failure:
  "i < length raw \<Longrightarrow>
   \<forall>j<i. \<exists>d. derive_frame p r j (raw ! j) = Inr d \<Longrightarrow>
   derive_frame p r i (raw ! i) = Inl e \<Longrightarrow>
   frames p r raw = Inl e"
  using map_frames_first_failure [of i raw p r 0 e] by (simp add: frames_def)

text \<open>
  The buffer that the pixel loops fill. For a frame of one pixel it is the premultiplied
  quadruple; for a wider frame the quadruples overlap, since the write position advances by
  one byte per pixel. The channel is rounded twice before the floor: 85 at alpha 147 gives
  48, where \<open>85 \<times> 147 / 255\<close> is 49.
\<close>

lemma premultiplied_rounded: "premultiplied (Some 85) (Some 147) = 48"
  by code_simp

lemma premultiply_loop_single_pixel:
  "premultiply_loop \<lparr>png_width = 2, png_data = [1, 2, 3, 255, 200, 100, 50, 0]\<rparr>
     \<lparr>frame_x = 1, frame_y = 0, frame_w = 1, frame_h = 1, spriteSourceSize_x = 0,
      spriteSourceSize_y = 0, sourceSize_w = 1, sourceSize_h = 1, frame_duration = 1000\<rparr>
   = [0, 0, 0, 255]"
  by code_simp

lemma premultiply_loop_overlapping_writes:
  "premultiply_loop \<lparr>png_width = 2, png_data = [200, 100, 50, 255, 10, 20, 30, 128]\<rparr>
     \<lparr>frame_x = 0, frame_y = 0, frame_w = 2, frame_h = 1, spriteSourceSize_x = 0,
      spriteSourceSize_y = 0, sourceSize_w = 2, sourceSize_h = 1, frame_duration = 1000\<rparr>
   = [200, 5, 10, 15, 127, 0, 0, 0]"
  by code_simp

text \<open>
  C1. The pixels of a derived frame should be the premultiplied bytes of the frame's
  rectangle, \<open>width \<times> height \<times> 4\<close> of them. For the frame of one pixel at column 1 of a
  sheet of two pixels, whose pixel is (200, 100, 50) with alpha 0, that is
  \<open>[0, 0, 0, 255]\<close>; the derived frame holds the eight bytes of the sheet instead, because
  the closure returns \<^verbatim>\<open>rgba: png.data\<close> and drops the buffer it has filled.
\<close>

theorem frame_pixels_raw_sheet:
  "derive_frame \<lparr>png_width = 2, png_data = [1, 2, 3, 255, 200, 100, 50, 0]\<rparr> 1 0
     \<lparr>frame_x = 1, frame_y = 0, frame_w = 1, frame_h = 1, spriteSourceSize_x = 0,
      spriteSourceSize_y = 0, sourceSize_w = 1, sourceSize_h = 1, frame_duration = 1000\<rparr>
   = Inr \<lparr>width = 1, height = 1, xOffset = - (1 / 2), yOffset = - (1 / 2), duration = 1,
          rgba = [1, 2, 3, 255, 200, 100, 50, 0]\<rparr>"
  by (simp add: derive_frame_def frame_xOffset_def frame_yOffset_def Let_def js_times_exact
      js_divide_exact)

text \<open>
  C6, as the code has it. The duration check comes after the six geometry checks, and the
  product \<open>duration \<times> rate\<close> is a double, exact below \<open>2 ^ 53\<close>. So for a frame that
  passes the geometry checks and a refresh rate of at least 1 whose product with the duration
  is below \<open>2 ^ 53\<close>: the frame fails with \<open>DurationIncompatible\<close> (carrying the 1-based
  frame number, the duration and the refresh rate) exactly when \<open>duration \<times> rate\<close> is not
  a multiple of 1000; otherwise the frame is derived, its ticks are
  \<open>duration \<times> rate / 1000\<close> without remainder, and \<open>ticks \<times> 1000 / rate\<close> gives the
  milliseconds back (both operations are exact in this range).
\<close>

theorem duration_ticks:
  assumes "1 \<le> r" and "geometry_in_range f" and "\<bar>frame_duration f * r\<bar> < 2 ^ 53"
  shows "((\<exists>n d q. derive_frame p r i f = Inl (DurationIncompatible n d q))
            \<longleftrightarrow> (frame_duration f * r) mod 1000 \<noteq> 0)
       \<and> ((frame_duration f * r) mod 1000 \<noteq> 0 \<longrightarrow>
            derive_frame p r i f = Inl (DurationIncompatible (i + 1) (frame_duration f) r))
       \<and> ((frame_duration f * r) mod 1000 = 0 \<longrightarrow>
            (\<exists>d. derive_frame p r i f = Inr d
               \<and> duration d = frame_duration f * r div 1000
               \<and> duration d * 1000 = frame_duration f * r
               \<and> duration d * 1000 div r = frame_duration f))"
proof -
  have exact: "frame_duration f * r div 1000 * 1000 = frame_duration f * r"
    if "(frame_duration f * r) mod 1000 = 0"
    using that by (simp add: mod_eq_0_iff_dvd)
  have rederive: "frame_duration f * r div r = frame_duration f"
    using assms(1) by simp
  show ?thesis
    using exact rederive
    by (auto simp: derive_frame_geometry_in_range [OF assms(2,3)]
        simp del: mult_numeral_left_semiring_numeral)
qed

theorem duration_ticks_witness:
  "derive_frame \<lparr>png_width = 1, png_data = [200, 100, 50, 0]\<rparr> 60 0
     \<lparr>frame_x = 0, frame_y = 0, frame_w = 1, frame_h = 1, spriteSourceSize_x = 0,
      spriteSourceSize_y = 0, sourceSize_w = 1, sourceSize_h = 1, frame_duration = 100\<rparr>
   = Inr \<lparr>width = 1, height = 1, xOffset = - (1 / 2), yOffset = - (1 / 2), duration = 6,
          rgba = [200, 100, 50, 0]\<rparr>
   \<and> derive_frame \<lparr>png_width = 1, png_data = [200, 100, 50, 0]\<rparr> 60 7
     \<lparr>frame_x = 0, frame_y = 0, frame_w = 1, frame_h = 1, spriteSourceSize_x = 0,
      spriteSourceSize_y = 0, sourceSize_w = 1, sourceSize_h = 1, frame_duration = 51\<rparr>
   = Inl (DurationIncompatible 8 51 60)"
proof -
  let ?p = "\<lparr>png_width = 1, png_data = [200, 100, 50, 0]\<rparr>"
  let ?f = "\<lparr>frame_x = 0, frame_y = 0, frame_w = 1, frame_h = 1, spriteSourceSize_x = 0,
      spriteSourceSize_y = 0, sourceSize_w = 1, sourceSize_h = 1, frame_duration = 100\<rparr>"
  let ?g = "\<lparr>frame_x = 0, frame_y = 0, frame_w = 1, frame_h = 1, spriteSourceSize_x = 0,
      spriteSourceSize_y = 0, sourceSize_w = 1, sourceSize_h = 1, frame_duration = 51\<rparr>"
  have r: "(1::int) \<le> 60" by simp
  have f: "geometry_in_range ?f"
    by (simp add: geometry_in_range_def frame_xOffset_def frame_yOffset_def)
  have g: "geometry_in_range ?g"
    by (simp add: geometry_in_range_def frame_xOffset_def frame_yOffset_def)
  have sf: "\<bar>frame_duration ?f * 60\<bar> < 2 ^ 53" by simp
  have sg: "\<bar>frame_duration ?g * 60\<bar> < 2 ^ 53" by simp
  have "\<exists>d. derive_frame ?p 60 0 ?f = Inr d \<and> duration d = 6"
    using duration_ticks [OF r f sf, of ?p 0] by auto
  then have 1: "derive_frame ?p 60 0 ?f
      = Inr \<lparr>width = 1, height = 1, xOffset = - (1 / 2), yOffset = - (1 / 2), duration = 6,
          rgba = [200, 100, 50, 0]\<rparr>"
    by (auto simp: derive_frame_def Let_def frame_xOffset_def frame_yOffset_def
        split: if_splits option.splits)
  have 2: "derive_frame ?p 60 7 ?g = Inl (DurationIncompatible 8 51 60)"
    using duration_ticks [OF r g sg, of ?p 7] by simp
  show ?thesis using 1 2 by simp
qed

text \<open>
  C6, as the claim has it (every frame, every refresh rate), fails in two places. Where a
  geometry check comes first: a frame 65536 pixels wide with 16 milliseconds at 60 hertz has
  \<open>16 \<times> 60 mod 1000 = 960\<close>, and the failure is the one of the width. And where the product
  is rounded: 3 milliseconds at 3002399751580667 hertz give the product 9007199254742001,
  whose remainder is 1; its double is 9007199254742000, and the frame is derived with
  9007199254742 ticks.
\<close>

theorem duration_check_counterexample:
  "(frame_duration \<lparr>frame_x = 0, frame_y = 0, frame_w = 65536, frame_h = 1,
      spriteSourceSize_x = 0, spriteSourceSize_y = 0, sourceSize_w = 1, sourceSize_h = 1,
      frame_duration = 16\<rparr> * 60) mod 1000 \<noteq> 0
   \<and> derive_frame \<lparr>png_width = 1, png_data = [200, 100, 50, 0]\<rparr> 60 0
     \<lparr>frame_x = 0, frame_y = 0, frame_w = 65536, frame_h = 1, spriteSourceSize_x = 0,
      spriteSourceSize_y = 0, sourceSize_w = 1, sourceSize_h = 1, frame_duration = 16\<rparr>
   = Inl (GeometryLimitExceeded 1 Width 65536 65535)
   \<and> (frame_duration \<lparr>frame_x = 0, frame_y = 0, frame_w = 1, frame_h = 1,
      spriteSourceSize_x = 0, spriteSourceSize_y = 0, sourceSize_w = 1, sourceSize_h = 1,
      frame_duration = 3\<rparr> * 3002399751580667) mod 1000 \<noteq> 0
   \<and> derive_frame \<lparr>png_width = 1, png_data = [200, 100, 50, 0]\<rparr> 3002399751580667 0
     \<lparr>frame_x = 0, frame_y = 0, frame_w = 1, frame_h = 1, spriteSourceSize_x = 0,
      spriteSourceSize_y = 0, sourceSize_w = 1, sourceSize_h = 1, frame_duration = 3\<rparr>
   = Inr \<lparr>width = 1, height = 1, xOffset = - (1 / 2), yOffset = - (1 / 2),
          duration = 9007199254742, rgba = [200, 100, 50, 0]\<rparr>"
  by (simp add: derive_frame_def frame_xOffset_def frame_yOffset_def Let_def js_times_rounded
      js_divide_rounded)

text \<open>
  C8. A frame wider than 65535 pixels fails with \<open>GeometryLimitExceeded\<close> for the width,
  a frame that is not, but is taller than 65535 pixels, fails with the one for the height,
  both carrying the 1-based frame number \<open>i + 1\<close>; and a frame of at most 65535 pixels each
  way (65535 included) fails with neither.
\<close>

theorem geometry_limit:
  "(frame_w f > 65535 \<longrightarrow>
      derive_frame p r i f = Inl (GeometryLimitExceeded (i + 1) Width (rat_of_nat (frame_w f)) 65535))
   \<and> (frame_w f \<le> 65535 \<and> frame_h f > 65535 \<longrightarrow>
      derive_frame p r i f = Inl (GeometryLimitExceeded (i + 1) Height (rat_of_nat (frame_h f)) 65535))
   \<and> (frame_w f \<le> 65535 \<and> frame_h f \<le> 65535 \<longrightarrow>
      (\<forall>n v l. derive_frame p r i f \<noteq> Inl (GeometryLimitExceeded n Width v l)
             \<and> derive_frame p r i f \<noteq> Inl (GeometryLimitExceeded n Height v l)))"
  by (simp add: derive_frame_def Let_def split: option.splits)

theorem geometry_limit_witness:
  "derive_frame \<lparr>png_width = 1, png_data = [200, 100, 50, 0]\<rparr> 1 0
     \<lparr>frame_x = 0, frame_y = 0, frame_w = 65536, frame_h = 1, spriteSourceSize_x = 0,
      spriteSourceSize_y = 0, sourceSize_w = 1, sourceSize_h = 1, frame_duration = 1000\<rparr>
   = Inl (GeometryLimitExceeded 1 Width 65536 65535)
   \<and> derive_frame \<lparr>png_width = 1, png_data = [200, 100, 50, 0]\<rparr> 1 0
     \<lparr>frame_x = 0, frame_y = 0, frame_w = 1, frame_h = 65536, spriteSourceSize_x = 0,
      spriteSourceSize_y = 0, sourceSize_w = 1, sourceSize_h = 1, frame_duration = 1000\<rparr>
   = Inl (GeometryLimitExceeded 1 Height 65536 65535)
   \<and> derive_frame \<lparr>png_width = 1, png_data = [200, 100, 50, 0]\<rparr> 1 0
     \<lparr>frame_x = 0, frame_y = 0, frame_w = 65535, frame_h = 1, spriteSourceSize_x = 0,
      spriteSourceSize_y = 0, sourceSize_w = 1, sourceSize_h = 1, frame_duration = 1000\<rparr>
   = Inr \<lparr>width = 65535, height = 1, xOffset = - (1 / 2), yOffset = - (1 / 2), duration = 1,
          rgba = [200, 100, 50, 0]\<rparr>"
proof -
  let ?p = "\<lparr>png_width = 1, png_data = [200, 100, 50, 0]\<rparr>"
  have 1: "derive_frame ?p 1 0
     \<lparr>frame_x = 0, frame_y = 0, frame_w = 65536, frame_h = 1, spriteSourceSize_x = 0,
      spriteSourceSize_y = 0, sourceSize_w = 1, sourceSize_h = 1, frame_duration = 1000\<rparr>
   = Inl (GeometryLimitExceeded 1 Width 65536 65535)"
    using geometry_limit [of "\<lparr>frame_x = 0, frame_y = 0, frame_w = 65536, frame_h = 1,
      spriteSourceSize_x = 0, spriteSourceSize_y = 0, sourceSize_w = 1, sourceSize_h = 1,
      frame_duration = 1000\<rparr>" ?p 1 0]
    by simp
  have 2: "derive_frame ?p 1 0
     \<lparr>frame_x = 0, frame_y = 0, frame_w = 1, frame_h = 65536, spriteSourceSize_x = 0,
      spriteSourceSize_y = 0, sourceSize_w = 1, sourceSize_h = 1, frame_duration = 1000\<rparr>
   = Inl (GeometryLimitExceeded 1 Height 65536 65535)"
    using geometry_limit [of "\<lparr>frame_x = 0, frame_y = 0, frame_w = 1, frame_h = 65536,
      spriteSourceSize_x = 0, spriteSourceSize_y = 0, sourceSize_w = 1, sourceSize_h = 1,
      frame_duration = 1000\<rparr>" ?p 1 0]
    by simp
  have 3: "derive_frame ?p 1 0
     \<lparr>frame_x = 0, frame_y = 0, frame_w = 65535, frame_h = 1, spriteSourceSize_x = 0,
      spriteSourceSize_y = 0, sourceSize_w = 1, sourceSize_h = 1, frame_duration = 1000\<rparr>
   = Inr \<lparr>width = 65535, height = 1, xOffset = - (1 / 2), yOffset = - (1 / 2), duration = 1,
          rgba = [200, 100, 50, 0]\<rparr>"
    using geometry_limit [of "\<lparr>frame_x = 0, frame_y = 0, frame_w = 65535, frame_h = 1,
      spriteSourceSize_x = 0, spriteSourceSize_y = 0, sourceSize_w = 1, sourceSize_h = 1,
      frame_duration = 1000\<rparr>" ?p 1 0]
    by (simp add: derive_frame_def frame_xOffset_def frame_yOffset_def Let_def js_times_exact
        js_divide_exact)
  show ?thesis using 1 2 3 by simp
qed

section \<open>Properties of the Tag Expander\<close>

lemma forward_loop_upto: "forward_loop i t acc = acc @ [i..t]"
proof (induction i t acc rule: forward_loop.induct)
  case (1 index to acc)
  show ?case
  proof (cases "index \<le> to")
    case True
    then show ?thesis
      using 1 by (subst forward_loop.simps) (simp add: upto_rec1)
  next
    case False
    then show ?thesis by (subst forward_loop.simps) simp
  qed
qed

lemma reverse_loop_upto: "reverse_loop i f acc = acc @ rev [f..i]"
proof (induction i f acc rule: reverse_loop.induct)
  case (1 index "from" acc)
  show ?case
  proof (cases "index \<ge> from")
    case True
    then show ?thesis
      using 1 by (subst reverse_loop.simps) (simp add: upto_rec2)
  next
    case False
    then show ?thesis by (subst reverse_loop.simps) simp
  qed
qed

lemma pingpong_up_loop_upto: "pingpong_up_loop i t acc = acc @ [i..t - 1]"
proof (induction i t acc rule: pingpong_up_loop.induct)
  case (1 index to acc)
  show ?case
  proof (cases "index < to")
    case True
    then show ?thesis
      using 1 by (subst pingpong_up_loop.simps) (simp add: upto_rec1)
  next
    case False
    then show ?thesis by (subst pingpong_up_loop.simps) simp
  qed
qed

lemma pingpong_down_loop_upto: "pingpong_down_loop i f acc = acc @ rev [f + 1..i]"
proof (induction i f acc rule: pingpong_down_loop.induct)
  case (1 index "from" acc)
  show ?case
  proof (cases "index > from")
    case True
    then show ?thesis
      using 1 by (subst pingpong_down_loop.simps) (simp add: upto_rec2)
  next
    case False
    then show ?thesis by (subst pingpong_down_loop.simps) simp
  qed
qed

lemma count_list_distinct: "distinct xs \<Longrightarrow> count_list xs k = (if k \<in> set xs then 1 else 0)"
  by (induction xs) auto

lemma count_list_upto: "count_list [a..b] k = (if a \<le> k \<and> k \<le> b then 1 else 0)"
  by (simp add: count_list_distinct)

lemma tag_indices_Forward:
  "tag_direction t = Forward \<Longrightarrow> tag_indices t = Inr [tag_from t..tag_to t]"
  by (simp add: tag_indices_def forward_loop_upto)

lemma tag_indices_Reverse:
  "tag_direction t = Reverse \<Longrightarrow> tag_indices t = Inr (rev [tag_from t..tag_to t])"
  by (simp add: tag_indices_def reverse_loop_upto)

lemma tag_indices_Pingpong:
  "tag_direction t = Pingpong \<Longrightarrow>
   tag_indices t = Inr ([tag_from t..tag_to t - 1] @ rev [tag_from t + 1..tag_to t])"
  by (simp add: tag_indices_def pingpong_up_loop_upto pingpong_down_loop_upto)


lemma sum_durations_out_of_range:
  "i \<in> set idx \<Longrightarrow> \<not> (0 \<le> i \<and> i < int (length fs)) \<Longrightarrow>
   sum_durations fs idx d = Inl TypeError"
  by (induction idx arbitrary: d) auto

text \<open>
  C3. Every resolved tag should hold at least one index, a ping-pong tag of a single frame
  included. For such a tag both loops of the \<^verbatim>\<open>pingpong\<close> case run zero times, while
  the \<^verbatim>\<open>forward\<close> and \<^verbatim>\<open>reverse\<close> cases give the one frame: the tag is accepted
  with no index and no duration.
\<close>

theorem pingpong_single_frame_empty:
  "expand_tag
     [\<lparr>width = 1, height = 1, xOffset = 0, yOffset = 0, duration = 6, rgba = [0, 0, 0, 255]\<rparr>]
     \<lparr>tag_name = ''idle'', tag_from = 0, tag_to = 0, tag_direction = Pingpong\<rparr>
   = Inr \<lparr>name = ''idle'', indices = [], total_duration = 0\<rparr>"
  by (simp add: expand_tag_def tag_indices_Pingpong)

text \<open>
  C5, as the code has it. For \<open>from \<le> to\<close>, \<^verbatim>\<open>forward\<close> gives \<open>from, \<dots>, to\<close> and
  \<^verbatim>\<open>reverse\<close> gives \<open>to, \<dots>, from\<close>; for \<open>from < to\<close>, \<^verbatim>\<open>pingpong\<close> gives
  \<open>from, \<dots>, to - 1\<close> followed by \<open>to, \<dots>, from + 1\<close>, which visits the first and the last
  frame once and every frame between them twice.
\<close>

theorem tag_sequences:
  assumes "tag_from t \<le> tag_to t"
  shows "(tag_direction t = Forward \<longrightarrow> tag_indices t = Inr [tag_from t..tag_to t])
    \<and> (tag_direction t = Reverse \<longrightarrow> tag_indices t = Inr (rev [tag_from t..tag_to t]))
    \<and> (tag_direction t = Pingpong \<and> tag_from t < tag_to t \<longrightarrow>
         tag_indices t = Inr ([tag_from t..tag_to t - 1] @ rev [tag_from t + 1..tag_to t])
         \<and> visits t (tag_from t) = 1
         \<and> visits t (tag_to t) = 1
         \<and> (\<forall>k. tag_from t < k \<and> k < tag_to t \<longrightarrow> visits t k = 2))"
proof (intro conjI impI)
  assume "tag_direction t = Forward"
  then show "tag_indices t = Inr [tag_from t..tag_to t]"
    by (rule tag_indices_Forward)
next
  assume "tag_direction t = Reverse"
  then show "tag_indices t = Inr (rev [tag_from t..tag_to t])"
    by (rule tag_indices_Reverse)
next
  assume p: "tag_direction t = Pingpong \<and> tag_from t < tag_to t"
  then show "tag_indices t = Inr ([tag_from t..tag_to t - 1] @ rev [tag_from t + 1..tag_to t])"
    by (simp add: tag_indices_Pingpong)
  show "visits t (tag_from t) = 1"
    using p by (simp add: visits_def tag_indices_Pingpong count_list_upto)
  show "visits t (tag_to t) = 1"
    using p by (simp add: visits_def tag_indices_Pingpong count_list_upto)
  show "\<forall>k. tag_from t < k \<and> k < tag_to t \<longrightarrow> visits t k = 2"
    using p by (simp add: visits_def tag_indices_Pingpong count_list_upto)
qed

theorem tag_sequences_witness:
  "tag_indices \<lparr>tag_name = ''walk'', tag_from = 2, tag_to = 5, tag_direction = Pingpong\<rparr>
     = Inr [2, 3, 4, 5, 4, 3]
   \<and> tag_indices \<lparr>tag_name = ''walk'', tag_from = 2, tag_to = 5, tag_direction = Forward\<rparr>
     = Inr [2, 3, 4, 5]
   \<and> tag_indices \<lparr>tag_name = ''walk'', tag_from = 2, tag_to = 5, tag_direction = Reverse\<rparr>
     = Inr [5, 4, 3, 2]
   \<and> visits \<lparr>tag_name = ''walk'', tag_from = 2, tag_to = 5, tag_direction = Pingpong\<rparr> 2 = 1
   \<and> visits \<lparr>tag_name = ''walk'', tag_from = 2, tag_to = 5, tag_direction = Pingpong\<rparr> 5 = 1
   \<and> visits \<lparr>tag_name = ''walk'', tag_from = 2, tag_to = 5, tag_direction = Pingpong\<rparr> 4 = 2"
  using
    tag_sequences [of "\<lparr>tag_name = ''walk'', tag_from = 2, tag_to = 5, tag_direction = Pingpong\<rparr>"]
    tag_sequences [of "\<lparr>tag_name = ''walk'', tag_from = 2, tag_to = 5, tag_direction = Forward\<rparr>"]
    tag_sequences [of "\<lparr>tag_name = ''walk'', tag_from = 2, tag_to = 5, tag_direction = Reverse\<rparr>"]
  by (simp add: upto_rec1)

text \<open>
  C5, as the claim has it (every \<open>from \<le> to\<close>), fails for \<^verbatim>\<open>pingpong\<close> at
  \<open>from = to\<close>: the sequence is empty, so the frame that is both the first and the last
  is visited zero times, not once.
\<close>

theorem pingpong_visits_counterexample:
  "tag_indices \<lparr>tag_name = ''idle'', tag_from = 3, tag_to = 3, tag_direction = Pingpong\<rparr> = Inr []
   \<and> visits \<lparr>tag_name = ''idle'', tag_from = 3, tag_to = 3, tag_direction = Pingpong\<rparr> 3 = 0"
  by (simp add: visits_def tag_indices_Pingpong)



text \<open>
  C9. Nothing compares \<open>from\<close> and \<open>to\<close> with the number of frames. A tag whose sequence
  holds \<open>to\<close> (\<^verbatim>\<open>forward\<close> or \<^verbatim>\<open>reverse\<close> with \<open>from \<le> to\<close>, \<^verbatim>\<open>pingpong\<close> with
  \<open>from < to\<close>) and whose \<open>to\<close> is not below the number of frames makes the summation read
  past the end of the frames; the run ends with the runtime's \<open>TypeError\<close>, none of the
  errors that the converter raises itself.
\<close>

theorem tag_out_of_range:
  assumes "(tag_direction t = Forward \<or> tag_direction t = Reverse) \<and> tag_from t \<le> tag_to t
           \<or> tag_direction t = Pingpong \<and> tag_from t < tag_to t"
    and "int (length fs) \<le> tag_to t"
  shows "expand_tag fs t = Inl TypeError"
proof -
  obtain idx where idx: "tag_indices t = Inr idx" "tag_to t \<in> set idx"
    using assms(1) by (auto simp: tag_indices_Forward tag_indices_Reverse tag_indices_Pingpong)
  have "sum_durations fs idx 0 = Inl TypeError"
    using idx(2) assms(2) by (intro sum_durations_out_of_range [of "tag_to t"]) auto
  then show ?thesis by (simp add: expand_tag_def idx(1))
qed

theorem tag_out_of_range_witness:
  "expand_tag [\<lparr>width = 1, height = 1, xOffset = 0, yOffset = 0, duration = 6, rgba = []\<rparr>]
     \<lparr>tag_name = ''walk'', tag_from = 0, tag_to = 1, tag_direction = Forward\<rparr> = Inl TypeError"
  using tag_out_of_range
    [of "\<lparr>tag_name = ''walk'', tag_from = 0, tag_to = 1, tag_direction = Forward\<rparr>"
      "[\<lparr>width = 1, height = 1, xOffset = 0, yOffset = 0, duration = 6, rgba = []\<rparr>]"]
  by simp

section \<open>Properties of the Code Emitter\<close>

lemma expand_tag_name: "expand_tag fs t = Inr r \<Longrightarrow> name r = tag_name t"
  by (auto simp: expand_tag_def split: sum.splits if_splits)

lemma tags_names: "tags fs raw = Inr ts \<Longrightarrow> map name ts = map tag_name raw"
proof (induction raw arbitrary: ts)
  case Nil
  then show ?case by simp
next
  case (Cons t raw)
  then show ?case
    by (auto simp: expand_tag_name split: sum.splits)
qed

lemma tags_zip_names:
  "tags fs raw = Inr ts \<Longrightarrow>
   map (\<lambda>(t, r). g (tag_name t) r) (zip raw ts) = map (\<lambda>r. g (name r) r) ts"
proof (induction raw arbitrary: ts)
  case Nil
  then show ?case by simp
next
  case (Cons t raw)
  then show ?case
    by (auto simp: expand_tag_name split: sum.splits)
qed

text \<open>The source starts with its one \<^verbatim>\<open>#include\<close> directive.\<close>

lemma source_include_prefix:
  "prefix (''#include '' @ dq @ b @ ''.h'' @ dq @ nl) (source b s fs ts)"
  by (simp add: source_def source_sprite_def)

subsection \<open>One run, step by step\<close>

text \<open>
  The sheet is one opaque pixel, the sprite one frame of a second at one hertz. The converter
  is called for \<^verbatim>\<open>aseprite-file.ase\<close> with the output \<^verbatim>\<open>file\<close>, as in the scenarios
  of \<^verbatim>\<open>src/unit.ts\<close>.
\<close>

lemma show_nat_digit: "n < 10 \<Longrightarrow> show_nat n = [digit_char n]"
  by (simp add: show_nat_def show_base.simps)

lemma show_hex_example:
  "show_hex 200 = ''0xc8''" "show_hex 100 = ''0x64''" "show_hex 50 = ''0x32''"
  "show_hex 255 = ''0xff''"
  by (simp_all add: show_hex_def show_base.simps digit_char_def)

lemma show_number_example: "show_number (- 1) = ''-1''"
  by (simp add: show_number_def show_nat_digit digit_char_def)

lemma sprite_example: "convertFileNameToIdentifier ''aseprite-file'' = ''aseprite_file''"
  by code_simp

lemma normalized_Test: "convertFileNameToIdentifier ''Test'' = ''test''"
  by code_simp

lemma frames_example:
  "frames \<lparr>png_width = 1, png_data = [200, 100, 50, 255]\<rparr> 1
     [\<lparr>frame_x = 0, frame_y = 0, frame_w = 1, frame_h = 1, spriteSourceSize_x = 0,
       spriteSourceSize_y = 0, sourceSize_w = 2, sourceSize_h = 2, frame_duration = 1000\<rparr>]
   = Inr [\<lparr>width = 1, height = 1, xOffset = - 1, yOffset = - 1, duration = 1,
           rgba = [200, 100, 50, 255]\<rparr>]"
  by (simp add: frames_def derive_frame_def frame_xOffset_def frame_yOffset_def Let_def
      js_times_exact js_divide_exact)

lemma tags_example:
  "tags [\<lparr>width = 1, height = 1, xOffset = - 1, yOffset = - 1, duration = 1,
          rgba = [200, 100, 50, 255]\<rparr>]
     [\<lparr>tag_name = ''Test'', tag_from = 0, tag_to = 0, tag_direction = Forward\<rparr>]
   = Inr [\<lparr>name = ''Test'', indices = [0], total_duration = 1\<rparr>]"
  by (simp add: expand_tag_def tag_indices_Forward upto_rec1)

lemma header_example:
  "header ''neomura.h'' ''sprites.h'' ''aseprite_file''
     [\<lparr>name = ''Test'', indices = [0], total_duration = 1\<rparr>]
   = ''#pragma once'' @ nl @ nl
     @ ''#include '' @ dq @ ''neomura.h'' @ dq @ nl
     @ ''#include '' @ dq @ ''sprites.h'' @ dq @ nl @ nl
     @ ''extern const sprite_t aseprite_file;'' @ nl @ nl
     @ ''extern const sprite_animation_t Test;'' @ nl"
  by (simp add: header_def)

lemma header_no_tags:
  "header ''neomura.h'' ''sprites.h'' ''aseprite_file'' []
   = ''#pragma once'' @ nl @ nl
     @ ''#include '' @ dq @ ''neomura.h'' @ dq @ nl
     @ ''#include '' @ dq @ ''sprites.h'' @ dq @ nl @ nl
     @ ''extern const sprite_t aseprite_file;'' @ nl @ nl @ nl"
  by (simp add: header_def)

lemma source_example:
  "source ''aseprite-file.ase'' ''aseprite_file''
     [\<lparr>width = 1, height = 1, xOffset = - 1, yOffset = - 1, duration = 1,
       rgba = [200, 100, 50, 255]\<rparr>]
     [\<lparr>name = ''Test'', indices = [0], total_duration = 1\<rparr>]
   = ''#include '' @ dq @ ''aseprite-file.ase.h'' @ dq @ nl @ nl
     @ ''static const u16_t aseprite_file_widths[1] = { 1 };'' @ nl
     @ ''static const u16_t aseprite_file_heights[1] = { 1 };'' @ nl
     @ ''static const s16_t aseprite_file_x_offsets[1] = { -1 };'' @ nl
     @ ''static const s16_t aseprite_file_y_offsets[1] = { -1 };'' @ nl
     @ ''static const u16_t aseprite_file_durations[1] = { 1 };'' @ nl
     @ ''static const u8_t aseprite_file_rgba_0[4] = { 0xc8, 0x64, 0x32, 0xff };'' @ nl
     @ ''static const u8_t * aseprite_file_rgba[1] = { &aseprite_file_rgba_0 };'' @ nl @ nl
     @ ''const sprite_t aseprite_file = {'' @ nl
     @ ''  &aseprite_file_widths,'' @ nl
     @ ''  &aseprite_file_heights,'' @ nl
     @ ''  &aseprite_file_x_offsets,'' @ nl
     @ ''  &aseprite_file_y_offsets,'' @ nl
     @ ''  &aseprite_file_durations,'' @ nl
     @ ''  &aseprite_file_rgba,'' @ nl
     @ ''  1'' @ nl
     @ ''};'' @ nl @ nl
     @ ''const u16_t Test_indices[1] = { 0 };'' @ nl @ nl
     @ ''const sprite_animation_t Test = {'' @ nl
     @ ''  &aseprite_file,'' @ nl
     @ ''  &Test_indices,'' @ nl
     @ ''  1,'' @ nl
     @ ''  1'' @ nl
     @ ''};'' @ nl"
  by (simp add: source_def source_sprite_def frame_array_def rgba_array_def
      tag_indices_array_def tag_struct_def
      show_nat_digit show_int_def digit_char_def show_hex_example show_number_example
      enumerate_eq_zip)

lemma source_no_tags:
  "source ''aseprite-file.ase'' ''aseprite_file''
     [\<lparr>width = 1, height = 1, xOffset = - 1, yOffset = - 1, duration = 1,
       rgba = [200, 100, 50, 255]\<rparr>] []
   = ''#include '' @ dq @ ''aseprite-file.ase.h'' @ dq @ nl @ nl
     @ ''static const u16_t aseprite_file_widths[1] = { 1 };'' @ nl
     @ ''static const u16_t aseprite_file_heights[1] = { 1 };'' @ nl
     @ ''static const s16_t aseprite_file_x_offsets[1] = { -1 };'' @ nl
     @ ''static const s16_t aseprite_file_y_offsets[1] = { -1 };'' @ nl
     @ ''static const u16_t aseprite_file_durations[1] = { 1 };'' @ nl
     @ ''static const u8_t aseprite_file_rgba_0[4] = { 0xc8, 0x64, 0x32, 0xff };'' @ nl
     @ ''static const u8_t * aseprite_file_rgba[1] = { &aseprite_file_rgba_0 };'' @ nl @ nl
     @ ''const sprite_t aseprite_file = {'' @ nl
     @ ''  &aseprite_file_widths,'' @ nl
     @ ''  &aseprite_file_heights,'' @ nl
     @ ''  &aseprite_file_x_offsets,'' @ nl
     @ ''  &aseprite_file_y_offsets,'' @ nl
     @ ''  &aseprite_file_durations,'' @ nl
     @ ''  &aseprite_file_rgba,'' @ nl
     @ ''  1'' @ nl
     @ ''};'' @ nl @ nl @ nl @ nl @ nl"
  by (simp add: source_def source_sprite_def frame_array_def rgba_array_def
      show_nat_digit show_int_def digit_char_def show_hex_example show_number_example
      enumerate_eq_zip)

lemma run_example:
  "run \<lparr>asepriteFile_basename = ''aseprite-file.ase'', asepriteFile_name = ''aseprite-file'',
         neomuraHeaderFile_relative = ''neomura.h'',
         neomuraSpritesHeaderFile_relative = ''sprites.h'',
         output_path = ''file'', refreshRate = 1\<rparr>
     [\<lparr>frame_x = 0, frame_y = 0, frame_w = 1, frame_h = 1, spriteSourceSize_x = 0,
       spriteSourceSize_y = 0, sourceSize_w = 2, sourceSize_h = 2, frame_duration = 1000\<rparr>]
     [\<lparr>tag_name = ''Test'', tag_from = 0, tag_to = 0, tag_direction = Forward\<rparr>]
     \<lparr>png_width = 1, png_data = [200, 100, 50, 255]\<rparr>
   = Inr [(''file.h'',
           header ''neomura.h'' ''sprites.h'' ''aseprite_file''
             [\<lparr>name = ''Test'', indices = [0], total_duration = 1\<rparr>]),
          (''file.c'',
           source ''aseprite-file.ase'' ''aseprite_file''
             [\<lparr>width = 1, height = 1, xOffset = - 1, yOffset = - 1, duration = 1,
               rgba = [200, 100, 50, 255]\<rparr>]
             [\<lparr>name = ''Test'', indices = [0], total_duration = 1\<rparr>])]"
  by (simp only: run_def config.select_convs frames_example tags_example sprite_example
      headerFile_def sourceFile_def sum.case Let_def append.simps)

text \<open>
  C2, as the code has it. The files of a run that succeeds are these. The header: the pragma,
  the two includes, the declaration of the sprite under the name that the normalizer gives to
  the name of the Aseprite file, and one \<^verbatim>\<open>extern const sprite_animation_t\<close> per
  tag, in the order of the description, under the name of the tag as the description has it.
  The source: the part of the sprite and, per tag, the index array and the animation, under
  that same name at its three places. The normalizer is applied to the name of the sprite
  alone, so the symbol of a tag is in normalized form only where its name already is.
\<close>

theorem tag_symbols_raw:
  assumes "run cfg data_frames frameTags p = Inr files"
  shows "\<exists>fs ts.
      frames p (refreshRate cfg) data_frames = Inr fs
    \<and> tags fs frameTags = Inr ts
    \<and> files =
        [(headerFile (output_path cfg),
          ''#pragma once'' @ nl @ nl
          @ ''#include '' @ dq @ neomuraHeaderFile_relative cfg @ dq @ nl
          @ ''#include '' @ dq @ neomuraSpritesHeaderFile_relative cfg @ dq @ nl @ nl
          @ ''extern const sprite_t '' @ convertFileNameToIdentifier (asepriteFile_name cfg)
          @ '';'' @ nl @ nl
          @ join nl (map (\<lambda>t. ''extern const sprite_animation_t '' @ tag_name t @ '';'')
              frameTags)
          @ nl),
         (sourceFile (output_path cfg),
          source_sprite (asepriteFile_basename cfg)
            (convertFileNameToIdentifier (asepriteFile_name cfg)) fs
          @ join nl (map (\<lambda>(t, r).
                ''const u16_t '' @ tag_name t @ ''_indices['' @ show_nat (length (indices r))
                @ ''] = { '' @ join '', '' (map show_int (indices r)) @ '' };'')
              (zip frameTags ts))
          @ nl @ nl
          @ join (nl @ nl) (map (\<lambda>(t, r).
                ''const sprite_animation_t '' @ tag_name t @ '' = {'' @ nl
                @ ''  &'' @ convertFileNameToIdentifier (asepriteFile_name cfg) @ '','' @ nl
                @ ''  &'' @ tag_name t @ ''_indices,'' @ nl
                @ ''  '' @ show_nat (length (indices r)) @ '','' @ nl
                @ ''  '' @ show_int (total_duration r) @ nl
                @ ''};'')
              (zip frameTags ts))
          @ nl)]"
proof -
  obtain fs ts where fs: "frames p (refreshRate cfg) data_frames = Inr fs"
    and ts: "tags fs frameTags = Inr ts"
    using assms by (auto simp: run_def split: sum.splits)
  let ?sprite = "convertFileNameToIdentifier (asepriteFile_name cfg)"
  have files: "files =
      [(headerFile (output_path cfg),
        header (neomuraHeaderFile_relative cfg) (neomuraSpritesHeaderFile_relative cfg)
          ?sprite ts),
       (sourceFile (output_path cfg), source (asepriteFile_basename cfg) ?sprite fs ts)]"
    using assms by (simp add: run_def fs ts Let_def)
  have h: "map (\<lambda>t. ''extern const sprite_animation_t '' @ name t @ '';'') ts
      = map (\<lambda>t. ''extern const sprite_animation_t '' @ tag_name t @ '';'') frameTags"
  proof -
    have "map (\<lambda>t. ''extern const sprite_animation_t '' @ name t @ '';'') ts
        = map (\<lambda>n. ''extern const sprite_animation_t '' @ n @ '';'') (map name ts)"
      by (simp add: comp_def)
    also have "\<dots> = map (\<lambda>n. ''extern const sprite_animation_t '' @ n @ '';'')
        (map tag_name frameTags)"
      by (simp only: tags_names [OF ts])
    finally show ?thesis by (simp add: comp_def)
  qed
  have i: "map tag_indices_array ts
      = map (\<lambda>(t, r).
                ''const u16_t '' @ tag_name t @ ''_indices['' @ show_nat (length (indices r))
                @ ''] = { '' @ join '', '' (map show_int (indices r)) @ '' };'')
              (zip frameTags ts)"
    using tags_zip_names [OF ts, of "\<lambda>n r. ''const u16_t '' @ n @ ''_indices[''
        @ show_nat (length (indices r)) @ ''] = { '' @ join '', '' (map show_int (indices r))
        @ '' };''"]
    by (simp add: tag_indices_array_def [abs_def])
  have s: "map (tag_struct ?sprite) ts
      = map (\<lambda>(t, r).
                ''const sprite_animation_t '' @ tag_name t @ '' = {'' @ nl
                @ ''  &'' @ ?sprite @ '','' @ nl
                @ ''  &'' @ tag_name t @ ''_indices,'' @ nl
                @ ''  '' @ show_nat (length (indices r)) @ '','' @ nl
                @ ''  '' @ show_int (total_duration r) @ nl
                @ ''};'')
              (zip frameTags ts)"
    using tags_zip_names [OF ts, of "\<lambda>n r. ''const sprite_animation_t '' @ n @ '' = {'' @ nl
        @ ''  &'' @ ?sprite @ '','' @ nl
        @ ''  &'' @ n @ ''_indices,'' @ nl
        @ ''  '' @ show_nat (length (indices r)) @ '','' @ nl
        @ ''  '' @ show_int (total_duration r) @ nl
        @ ''};''"]
    by (simp add: tag_struct_def [abs_def])
  show ?thesis
    by (rule exI [of _ fs], rule exI [of _ ts])
      (simp only: fs ts files header_def source_def h i s simp_thms)
qed

theorem tag_symbols_raw_witness:
  "run \<lparr>asepriteFile_basename = ''aseprite-file.ase'', asepriteFile_name = ''aseprite-file'',
         neomuraHeaderFile_relative = ''neomura.h'',
         neomuraSpritesHeaderFile_relative = ''sprites.h'',
         output_path = ''file'', refreshRate = 1\<rparr>
     [\<lparr>frame_x = 0, frame_y = 0, frame_w = 1, frame_h = 1, spriteSourceSize_x = 0,
       spriteSourceSize_y = 0, sourceSize_w = 2, sourceSize_h = 2, frame_duration = 1000\<rparr>]
     [\<lparr>tag_name = ''Test'', tag_from = 0, tag_to = 0, tag_direction = Forward\<rparr>]
     \<lparr>png_width = 1, png_data = [200, 100, 50, 255]\<rparr>
   = Inr [(''file.h'',
       ''#pragma once'' @ nl @ nl
       @ ''#include '' @ dq @ ''neomura.h'' @ dq @ nl
       @ ''#include '' @ dq @ ''sprites.h'' @ dq @ nl @ nl
       @ ''extern const sprite_t aseprite_file;'' @ nl @ nl
       @ ''extern const sprite_animation_t Test;'' @ nl),
      (''file.c'',
       source_sprite ''aseprite-file.ase'' ''aseprite_file''
         [\<lparr>width = 1, height = 1, xOffset = - 1, yOffset = - 1, duration = 1,
           rgba = [200, 100, 50, 255]\<rparr>]
       @ ''const u16_t Test_indices[1] = { 0 };'' @ nl @ nl
       @ ''const sprite_animation_t Test = {'' @ nl
       @ ''  &aseprite_file,'' @ nl
       @ ''  &Test_indices,'' @ nl
       @ ''  1,'' @ nl
       @ ''  1'' @ nl
       @ ''};'' @ nl)]"
  using tag_symbols_raw [OF run_example]
  by (auto simp: run_example [unfolded One_nat_def] frames_example [unfolded One_nat_def]
      tags_example [unfolded One_nat_def] sprite_example headerFile_def sourceFile_def
      show_nat_digit show_int_def digit_char_def simp del: tags.simps)

text \<open>
  C2, as the claim has it, fails for a tag whose name is not in normalized form: the
  normalizer turns \<^verbatim>\<open>Test\<close> into \<^verbatim>\<open>test\<close> (a scenario of the repository's unit
  test), and the files declare and define \<^verbatim>\<open>Test\<close>.
\<close>

theorem tag_symbol_counterexample:
  "convertFileNameToIdentifier ''Test'' = ''test''
   \<and> run \<lparr>asepriteFile_basename = ''aseprite-file.ase'', asepriteFile_name = ''aseprite-file'',
         neomuraHeaderFile_relative = ''neomura.h'',
         neomuraSpritesHeaderFile_relative = ''sprites.h'',
         output_path = ''file'', refreshRate = 1\<rparr>
     [\<lparr>frame_x = 0, frame_y = 0, frame_w = 1, frame_h = 1, spriteSourceSize_x = 0,
       spriteSourceSize_y = 0, sourceSize_w = 2, sourceSize_h = 2, frame_duration = 1000\<rparr>]
     [\<lparr>tag_name = ''Test'', tag_from = 0, tag_to = 0, tag_direction = Forward\<rparr>]
     \<lparr>png_width = 1, png_data = [200, 100, 50, 255]\<rparr>
   = Inr [(''file.h'',
       ''#pragma once'' @ nl @ nl
       @ ''#include '' @ dq @ ''neomura.h'' @ dq @ nl
       @ ''#include '' @ dq @ ''sprites.h'' @ dq @ nl @ nl
       @ ''extern const sprite_t aseprite_file;'' @ nl @ nl
       @ ''extern const sprite_animation_t Test;'' @ nl),
      (''file.c'',
       ''#include '' @ dq @ ''aseprite-file.ase.h'' @ dq @ nl @ nl
       @ ''static const u16_t aseprite_file_widths[1] = { 1 };'' @ nl
       @ ''static const u16_t aseprite_file_heights[1] = { 1 };'' @ nl
       @ ''static const s16_t aseprite_file_x_offsets[1] = { -1 };'' @ nl
       @ ''static const s16_t aseprite_file_y_offsets[1] = { -1 };'' @ nl
       @ ''static const u16_t aseprite_file_durations[1] = { 1 };'' @ nl
       @ ''static const u8_t aseprite_file_rgba_0[4] = { 0xc8, 0x64, 0x32, 0xff };'' @ nl
       @ ''static const u8_t * aseprite_file_rgba[1] = { &aseprite_file_rgba_0 };'' @ nl @ nl
       @ ''const sprite_t aseprite_file = {'' @ nl
       @ ''  &aseprite_file_widths,'' @ nl
       @ ''  &aseprite_file_heights,'' @ nl
       @ ''  &aseprite_file_x_offsets,'' @ nl
       @ ''  &aseprite_file_y_offsets,'' @ nl
       @ ''  &aseprite_file_durations,'' @ nl
       @ ''  &aseprite_file_rgba,'' @ nl
       @ ''  1'' @ nl
       @ ''};'' @ nl @ nl
       @ ''const u16_t Test_indices[1] = { 0 };'' @ nl @ nl
       @ ''const sprite_animation_t Test = {'' @ nl
       @ ''  &aseprite_file,'' @ nl
       @ ''  &Test_indices,'' @ nl
       @ ''  1,'' @ nl
       @ ''  1'' @ nl
       @ ''};'' @ nl)]"
  by (simp only: normalized_Test run_example header_example source_example simp_thms)

text \<open>
  C4. The source should include the header that the same run produces. Called for
  \<^verbatim>\<open>aseprite-file.ase\<close> with the output \<^verbatim>\<open>file\<close>, the run writes the header
  \<^verbatim>\<open>file.h\<close>, and the one \<^verbatim>\<open>#include\<close> of \<^verbatim>\<open>file.c\<close> names
  \<^verbatim>\<open>aseprite-file.ase.h\<close>: the directive is built from
  \<^verbatim>\<open>basename(asepriteFile)\<close>, the path of the header from \<^verbatim>\<open>output\<close>.
\<close>

theorem source_includes_aseprite_basename:
  "run \<lparr>asepriteFile_basename = ''aseprite-file.ase'', asepriteFile_name = ''aseprite-file'',
         neomuraHeaderFile_relative = ''neomura.h'',
         neomuraSpritesHeaderFile_relative = ''sprites.h'',
         output_path = ''file'', refreshRate = 1\<rparr>
     [\<lparr>frame_x = 0, frame_y = 0, frame_w = 1, frame_h = 1, spriteSourceSize_x = 0,
       spriteSourceSize_y = 0, sourceSize_w = 2, sourceSize_h = 2, frame_duration = 1000\<rparr>]
     []
     \<lparr>png_width = 1, png_data = [200, 100, 50, 255]\<rparr>
   = Inr [(''file.h'',
       ''#pragma once'' @ nl @ nl
       @ ''#include '' @ dq @ ''neomura.h'' @ dq @ nl
       @ ''#include '' @ dq @ ''sprites.h'' @ dq @ nl @ nl
       @ ''extern const sprite_t aseprite_file;'' @ nl @ nl @ nl),
      (''file.c'',
       ''#include '' @ dq @ ''aseprite-file.ase.h'' @ dq @ nl @ nl
       @ ''static const u16_t aseprite_file_widths[1] = { 1 };'' @ nl
       @ ''static const u16_t aseprite_file_heights[1] = { 1 };'' @ nl
       @ ''static const s16_t aseprite_file_x_offsets[1] = { -1 };'' @ nl
       @ ''static const s16_t aseprite_file_y_offsets[1] = { -1 };'' @ nl
       @ ''static const u16_t aseprite_file_durations[1] = { 1 };'' @ nl
       @ ''static const u8_t aseprite_file_rgba_0[4] = { 0xc8, 0x64, 0x32, 0xff };'' @ nl
       @ ''static const u8_t * aseprite_file_rgba[1] = { &aseprite_file_rgba_0 };'' @ nl @ nl
       @ ''const sprite_t aseprite_file = {'' @ nl
       @ ''  &aseprite_file_widths,'' @ nl
       @ ''  &aseprite_file_heights,'' @ nl
       @ ''  &aseprite_file_x_offsets,'' @ nl
       @ ''  &aseprite_file_y_offsets,'' @ nl
       @ ''  &aseprite_file_durations,'' @ nl
       @ ''  &aseprite_file_rgba,'' @ nl
       @ ''  1'' @ nl
       @ ''};'' @ nl @ nl @ nl @ nl @ nl)]"
proof -
  have "run \<lparr>asepriteFile_basename = ''aseprite-file.ase'', asepriteFile_name = ''aseprite-file'',
         neomuraHeaderFile_relative = ''neomura.h'',
         neomuraSpritesHeaderFile_relative = ''sprites.h'',
         output_path = ''file'', refreshRate = 1\<rparr>
     [\<lparr>frame_x = 0, frame_y = 0, frame_w = 1, frame_h = 1, spriteSourceSize_x = 0,
       spriteSourceSize_y = 0, sourceSize_w = 2, sourceSize_h = 2, frame_duration = 1000\<rparr>]
     []
     \<lparr>png_width = 1, png_data = [200, 100, 50, 255]\<rparr>
   = Inr [(''file.h'', header ''neomura.h'' ''sprites.h'' ''aseprite_file'' []),
          (''file.c'',
           source ''aseprite-file.ase'' ''aseprite_file''
             [\<lparr>width = 1, height = 1, xOffset = - 1, yOffset = - 1, duration = 1,
               rgba = [200, 100, 50, 255]\<rparr>] [])]"
    by (simp only: run_def config.select_convs frames_example tags.simps sprite_example
        headerFile_def sourceFile_def sum.case Let_def append.simps)
  then show ?thesis
    by (simp only: header_no_tags source_no_tags)
qed

section \<open>Properties of the Identifier Normalizer\<close>

text \<open>The scenarios of \<^verbatim>\<open>src/convert-file-name-to-identifier/unit.ts\<close>.\<close>

lemma unit_scenarios:
  "convertFileNameToIdentifier ''test'' = ''test''"
  "convertFileNameToIdentifier ''Test'' = ''test''"
  "convertFileNameToIdentifier
     (''  '' @ nl @ '' '' @ [CHR 0x0D] @ '' '' @ [CHR 0x09] @ ''  Test String  '' @ nl @ '' ''
      @ [CHR 0x09] @ '' '' @ [CHR 0x0D] @ '' With TXT White Space '' @ [CHR 0x09] @ '' ''
      @ [CHR 0x09] @ '' '' @ [CHR 0x0D] @ '' '' @ nl @ ''   '')
   = ''test_string_with_txt_white_space''"
  "convertFileNameToIdentifier ''test_snake_cased_string'' = ''test_snake_cased_string''"
  "convertFileNameToIdentifier ''test-kebab-cased-string'' = ''test_kebab_cased_string''"
  "convertFileNameToIdentifier ''TEST_SNAKE_CASED_STRING'' = ''test_snake_cased_string''"
  "convertFileNameToIdentifier ''TEST-KEBAB-CASED-STRING'' = ''test_kebab_cased_string''"
  "convertFileNameToIdentifier ''_test_snake_cased_string'' = ''test_snake_cased_string''"
  "convertFileNameToIdentifier ''-test-kebab-cased-string'' = ''test_kebab_cased_string''"
  "convertFileNameToIdentifier ''TestPascalCasedTXTString'' = ''test_pascal_cased_txt_string''"
  "convertFileNameToIdentifier ''testCamelCasedTXTString'' = ''test_camel_cased_txt_string''"
  "convertFileNameToIdentifier ''TestPascalCasedStringTXT'' = ''test_pascal_cased_string_txt''"
  "convertFileNameToIdentifier ''testCamelCasedStringTXT'' = ''test_camel_cased_string_txt''"
  "convertFileNameToIdentifier ''TXTTestPascalCasedString'' = ''txt_test_pascal_cased_string''"
  "convertFileNameToIdentifier ''TestPascalCasedTXString'' = ''test_pascal_cased_tx_string''"
  "convertFileNameToIdentifier ''testCamelCasedTXString'' = ''test_camel_cased_tx_string''"
  "convertFileNameToIdentifier ''TestPascalCasedStringTX'' = ''test_pascal_cased_string_tx''"
  "convertFileNameToIdentifier ''testCamelCasedStringTX'' = ''test_camel_cased_string_tx''"
  "convertFileNameToIdentifier ''TXTestPascalCasedString'' = ''tx_test_pascal_cased_string''"
  "convertFileNameToIdentifier ''TestPascalCasedTString'' = ''test_pascal_cased_t_string''"
  "convertFileNameToIdentifier ''testCamelCasedTString'' = ''test_camel_cased_t_string''"
  "convertFileNameToIdentifier ''TestPascalCasedStringT'' = ''test_pascal_cased_string_t''"
  "convertFileNameToIdentifier ''testCamelCasedStringT'' = ''test_camel_cased_string_t''"
  "convertFileNameToIdentifier ''TTestPascalCasedString'' = ''t_test_pascal_cased_string''"
  "convertFileNameToIdentifier ''TXT'' = ''txt''"
  "convertFileNameToIdentifier ''A B C'' = ''a_b_c''"
  by code_simp+

lemma word_char_not_separator: "word_char c \<Longrightarrow> \<not> is_separator c"
  by (auto simp: word_char_def is_lower_def is_digit_def is_separator_def)

lemma word_char_not_upper: "word_char c \<Longrightarrow> \<not> is_upper c"
  by (auto simp: word_char_def is_lower_def is_digit_def is_upper_def)

lemma split_chunks_word:
  "\<forall>c\<in>set w. \<not> is_separator c \<Longrightarrow> split_chunks cur (w @ rest) = split_chunks (cur @ w) rest"
  by (induction w arbitrary: cur) simp_all

lemma split_chunks_join:
  "\<forall>w\<in>set ws. w \<noteq> [] \<and> (\<forall>c\<in>set w. word_char c) \<Longrightarrow> split_chunks [] (join ''_'' ws) = ws"
proof (induction "''_''" ws rule: join.induct)
  case 1
  then show ?case by simp
next
  case (2 x)
  then have "split_chunks [] (x @ []) = split_chunks ([] @ x) []"
    by (intro split_chunks_word) (simp add: word_char_not_separator)
  with 2 show ?case by simp
next
  case (3 x y ys)
  have sep: "is_separator CHR ''_''"
    by (simp add: is_separator_def)
  have "split_chunks [] (x @ CHR ''_'' # join ''_'' (y # ys))
      = split_chunks ([] @ x) (CHR ''_'' # join ''_'' (y # ys))"
    using 3(2) by (intro split_chunks_word) (simp add: word_char_not_separator)
  also have "\<dots> = x # split_chunks [] (join ''_'' (y # ys))"
    using 3(2) sep by simp
  also have "\<dots> = x # y # ys"
    using 3 by simp
  finally show ?case by simp
qed

lemma split_from_lower:
  "\<forall>c\<in>set cs. \<not> is_upper c \<Longrightarrow> split_from cur prev cs = [cur @ cs]"
  by (induction cs arbitrary: cur prev) (simp_all add: case_boundary_def)

lemma split_words_lower:
  "w \<noteq> [] \<Longrightarrow> \<forall>c\<in>set w. \<not> is_upper c \<Longrightarrow> split_words w = [w]"
  by (cases w) (simp_all add: split_words_def split_from_lower)

lemma map_to_lower_id: "\<forall>c\<in>set w. \<not> is_upper c \<Longrightarrow> map to_lower w = w"
  by (induction w) (simp_all add: to_lower_def)

lemma words_unchanged:
  "\<forall>w\<in>set ws. w \<noteq> [] \<and> (\<forall>c\<in>set w. word_char c) \<Longrightarrow>
   map (map to_lower) (concat (map split_words ws)) = ws"
  by (induction ws) (simp_all add: split_words_lower map_to_lower_id word_char_not_upper)

text \<open>
  C10. A normalized identifier is a sequence of words, each a non-empty string of lower-case
  letters and digits, joined by single underscores. The normalizer returns such a string
  unchanged.
\<close>

theorem normalizer_idempotent:
  assumes "\<forall>w\<in>set ws. w \<noteq> [] \<and> (\<forall>c\<in>set w. is_lower c \<or> is_digit c)"
  shows "convertFileNameToIdentifier (join ''_'' ws) = join ''_'' ws"
proof -
  have ws: "\<forall>w\<in>set ws. w \<noteq> [] \<and> (\<forall>c\<in>set w. word_char c)"
    using assms by (simp add: word_char_def)
  show ?thesis
    by (simp add: convertFileNameToIdentifier_def split_chunks_join [OF ws] words_unchanged [OF ws])
qed

theorem normalizer_idempotent_witness:
  "convertFileNameToIdentifier ''test_snake_cased_string'' = ''test_snake_cased_string''"
  using normalizer_idempotent [of "[''test'', ''snake'', ''cased'', ''string'']"]
  by (simp add: is_lower_def)

end
